theory Spec2Isabelle
  imports Main "HOL-Library.AList"
begin

section \<open>Values shared by the whole abstraction core\<close>

text \<open>
  Python values that travel through option dictionaries and the loaded configuration.
  Only the shapes that the core inspects are distinguished; \<open>truthy\<close> is Python's
  truth test on them.
\<close>

datatype pyval = PyNone | PyBool bool | PyInt int | PyStr string
  | PyDict "(string \<times> pyval) list"

fun truthy :: "pyval \<Rightarrow> bool" where
  "truthy PyNone = False"
| "truthy (PyBool b) = b"
| "truthy (PyInt i) = (i \<noteq> 0)"
| "truthy (PyStr s) = (s \<noteq> [])"
| "truthy (PyDict kvs) = (kvs \<noteq> [])"

text \<open>
  A keyword-argument dictionary (\<open>**kwargs\<close>, \<open>_default_params\<close>) and a chat message
  (\<open>{'role': ..., 'content': ...}\<close>) are dictionaries with string keys.
\<close>

type_synonym params = "string \<rightharpoonup> pyval"
type_synonym message = "string \<rightharpoonup> string"

text \<open>The two message literals the client builds.\<close>

definition user_message :: "string \<Rightarrow> message" where
  "user_message c = [''role'' \<mapsto> ''user'', ''content'' \<mapsto> c]"

definition assistant_message :: "string \<Rightarrow> message" where
  "assistant_message c = [''role'' \<mapsto> ''assistant'', ''content'' \<mapsto> c]"

section \<open>LLMResponse (llm\_facade.py)\<close>

text \<open>
  The dataclass \<open>LLMResponse\<close>. The timestamp is a point on an abstract clock; where the
  source lets \<open>__post_init__\<close> read \<open>datetime.now()\<close>, the model takes the current
  time as an argument.
\<close>

record llm_response =
  content :: string
  model :: string
  provider :: string
  usage :: "(string \<rightharpoonup> int) option"
  metadata :: "params option"
  timestamp :: nat
  error :: "string option"

section \<open>LLMInteractionHistory (llm\_client.py)\<close>

text \<open>One dictionary stored by \<open>add_interaction\<close>.\<close>

record interaction =
  i_prompt :: string
  i_response :: string
  i_model :: string
  i_provider :: string
  i_timestamp :: nat
  i_usage :: "(string \<rightharpoonup> int) option"

text \<open>
  \<open>collections.deque(maxlen = N).append(x)\<close>: the element is appended on the right and,
  when the length then exceeds \<open>N\<close>, one element is dropped on the left. The constructor
  refuses a negative \<open>maxlen\<close>, so the capacity is a natural number.
\<close>

definition deque_append :: "nat \<Rightarrow> 'a list \<Rightarrow> 'a \<Rightarrow> 'a list" where
  "deque_append maxlen xs x =
     (let ys = xs @ [x] in if maxlen < length ys then tl ys else ys)"

text \<open>
  Python's \<open>xs[start:]\<close> for an arbitrary integer \<open>start\<close>: a negative start counts
  from the end, and both ends are clipped to the list.
\<close>

definition slice_from :: "int \<Rightarrow> 'a list \<Rightarrow> 'a list" where
  "slice_from start xs =
     (let len = int (length xs);
          s = (if start < 0 then max (start + len) 0 else min start len)
      in drop (nat s) xs)"

record interaction_history =
  max_history :: nat
  entries :: "interaction list"

definition new_history :: "nat \<Rightarrow> interaction_history" where
  "new_history n = \<lparr>max_history = n, entries = []\<rparr>"

definition interaction_of :: "string \<Rightarrow> llm_response \<Rightarrow> interaction" where
  "interaction_of prompt response =
     \<lparr>i_prompt = prompt, i_response = content response, i_model = model response,
      i_provider = provider response, i_timestamp = timestamp response,
      i_usage = usage response\<rparr>"

definition add_interaction :: "interaction_history \<Rightarrow> string \<Rightarrow> llm_response \<Rightarrow> interaction_history" where
  "add_interaction h prompt response =
     h\<lparr>entries := deque_append (max_history h) (entries h) (interaction_of prompt response)\<rparr>"

definition get_history :: "interaction_history \<Rightarrow> int option \<Rightarrow> interaction list" where
  "get_history h n =
     (case n of None \<Rightarrow> entries h | Some k \<Rightarrow> slice_from (- k) (entries h))"

text \<open>
  The loop of \<open>get_as_messages\<close>: \<open>messages\<close> starts empty and every interaction appends
  its user message and then its assistant message.
\<close>

fun append_messages :: "message list \<Rightarrow> interaction list \<Rightarrow> message list" where
  "append_messages messages [] = messages"
| "append_messages messages (i # rest) =
     append_messages
       ((messages @ [user_message (i_prompt i)]) @ [assistant_message (i_response i)]) rest"

definition get_as_messages :: "interaction_history \<Rightarrow> int option \<Rightarrow> message list" where
  "get_as_messages h n = append_messages [] (get_history h n)"

definition clear :: "interaction_history \<Rightarrow> interaction_history" where
  "clear h = h\<lparr>entries := []\<rparr>"

definition size_of :: "interaction_history \<Rightarrow> nat" where
  "size_of h = length (entries h)"

definition is_empty :: "interaction_history \<Rightarrow> bool" where
  "is_empty h = (length (entries h) = 0)"

text \<open>A run of \<open>add_interaction\<close> calls, one per (prompt, response) pair, in order.\<close>

fun add_all :: "interaction_history \<Rightarrow> (string \<times> llm_response) list \<Rightarrow> interaction_history" where
  "add_all h [] = h"
| "add_all h (pr # rest) = add_all (add_interaction h (fst pr) (snd pr)) rest"

section \<open>LLMFacade (llm\_facade.py)\<close>

text \<open>
  The abstract class \<open>LLMFacade\<close>: the attributes set by \<open>__init__\<close> and the four
  abstract operations, which every vendor implements. An operation that raises an
  exception \<open>e\<close> returns \<open>Inl (str e)\<close>; the client only ever looks at \<open>str(e)\<close>.
  A stream is finite: it yields the listed fragments in order and then either ends
  (\<open>None\<close>) or raises (\<open>Some (str e)\<close>); a call that raises before it returns an
  iterator is the stream that raises at once. What an operation does is given as a
  function of its arguments, which fixes the outcome of the one facade call each client
  method makes.
\<close>

type_synonym fragment_stream = "string list \<times> string option"

record facade =
  f_model_name :: string
  f_provider_name :: string
  f_api_key :: "string option"
  f_config :: params
  f_generate :: "string \<Rightarrow> params \<Rightarrow> string + llm_response"
  f_generate_stream :: "string \<Rightarrow> params \<Rightarrow> fragment_stream"
  f_chat :: "message list \<Rightarrow> params \<Rightarrow> string + llm_response"
  f_chat_stream :: "message list \<Rightarrow> params \<Rightarrow> fragment_stream"

section \<open>LLMClient (llm\_client.py)\<close>

text \<open>
  The client's logger calls write to the process log and return nothing; they are left
  out. The keyword dictionary of \<open>generate\<close>, \<open>generate_stream\<close> and \<open>chat\<close> holds
  the keywords that did not bind a named parameter of the method, so none of its keys
  is such a name.
\<close>

record llm_client =
  facade :: facade
  history :: interaction_history
  default_params :: params

definition new_client :: "facade \<Rightarrow> nat \<Rightarrow> llm_client" where
  "new_client f history_size =
     \<lparr>facade = f, history = new_history history_size, default_params = Map.empty\<rparr>"

text \<open>The response built in the \<open>except\<close> branches of \<open>generate\<close> and \<open>chat\<close>.\<close>

definition error_response :: "llm_client \<Rightarrow> nat \<Rightarrow> string \<Rightarrow> llm_response" where
  "error_response c now e =
     \<lparr>content = [], model = f_model_name (facade c), provider = f_provider_name (facade c),
      usage = None, metadata = None, timestamp = now, error = Some e\<rparr>"


text \<open>
  \<open>next((m['content'] for m in reversed(messages) if m.get('role') == 'user'), '')\<close>:
  \<open>first_user_content\<close> scans a list front to back and is applied to the reversed
  message list. Reading \<open>m['content']\<close> from a message without that key raises
  \<open>KeyError('content')\<close>, whose \<open>str\<close> is the key in single quotes.
\<close>

definition key_error_content :: string where
  "key_error_content = CHR 0x27 # ''content'' @ [CHR 0x27]"

fun first_user_content :: "message list \<Rightarrow> string + string" where
  "first_user_content [] = Inr []"
| "first_user_content (m # ms) =
     (if m ''role'' = Some ''user''
      then (case m ''content'' of None \<Rightarrow> Inl key_error_content | Some c \<Rightarrow> Inr c)
      else first_user_content ms)"

definition chat ::
  "llm_client \<Rightarrow> nat \<Rightarrow> message list \<Rightarrow> bool \<Rightarrow> params \<Rightarrow> llm_response \<times> llm_client" where
  "chat c now messages save_to_history kwargs =
     (let params = default_params c ++ kwargs in
      case f_chat (facade c) messages params of
        Inl e \<Rightarrow> (error_response c now e, c)
      | Inr response \<Rightarrow>
          if save_to_history \<and> error response = None \<and> messages \<noteq> []
          then (case first_user_content (rev messages) of
                  Inl e \<Rightarrow> (error_response c now e, c)
                | Inr user_msg \<Rightarrow>
                    (response,
                     if user_msg \<noteq> []
                     then c\<lparr>history := add_interaction (history c) user_msg response\<rparr>
                     else c))
          else (response, c))"

text \<open>
  \<open>multi_shot_generate\<close> ends in \<open>self.chat(messages, **kwargs)\<close>, and \<open>chat\<close> is
  declared \<open>chat(self, messages, save_to_history=True, **kwargs)\<close>. The keywords of
  \<open>multi_shot_generate\<close> are bound again by that call: a key \<open>'messages'\<close> collides with
  the positional argument and the call raises \<open>TypeError\<close> (multiple values for the
  argument) before the body of \<open>chat\<close> and its \<open>try\<close> block are entered; a key
  \<open>'save_to_history'\<close> becomes \<open>chat\<close>'s own parameter, tested for truth there, and is
  not among the keywords \<open>chat\<close> passes on; every other key stays a keyword.
\<close>

datatype call_error = MultipleValues string

definition multi_shot_generate ::
  "llm_client \<Rightarrow> nat \<Rightarrow> string \<Rightarrow> int \<Rightarrow> params
     \<Rightarrow> call_error + llm_response \<times> llm_client" where
  "multi_shot_generate c now prompt n_shots kwargs =
     (let messages = get_as_messages (history c) (Some n_shots) @ [user_message prompt] in
      if kwargs ''messages'' \<noteq> None then Inl (MultipleValues ''messages'')
      else Inr (chat c now messages
                  (case kwargs ''save_to_history'' of None \<Rightarrow> True | Some v \<Rightarrow> truthy v)
                  (kwargs(''save_to_history'' := None))))"

definition set_default_params :: "llm_client \<Rightarrow> params \<Rightarrow> llm_client" where
  "set_default_params c kwargs = c\<lparr>default_params := default_params c ++ kwargs\<rparr>"

definition clear_history :: "llm_client \<Rightarrow> llm_client" where
  "clear_history c = c\<lparr>history := clear (history c)\<rparr>"

subsection \<open>generate\_stream as a generator\<close>

text \<open>
  \<open>generate_stream\<close> is a generator function: calling it runs nothing, and every
  \<open>next()\<close> runs the body up to the following \<open>yield\<close>. The generator object keeps the
  call's arguments and the point where the body is suspended:
  \<^item> \<open>NotStarted\<close>: before the first \<open>next()\<close>;
  \<^item> \<open>InLoop rest fin full\<close>: suspended at \<open>yield chunk\<close>, with the part of the facade's
    stream not yet pulled and the buffer \<open>full_response\<close>;
  \<^item> \<open>InHandler\<close>: suspended at the \<open>yield\<close> of the \<open>except\<close> branch;
  \<^item> \<open>Finished\<close>: the body has returned.
\<close>

datatype gen_point = NotStarted | InLoop "string list" "string option" "string list"
  | InHandler | Finished

record stream_gen =
  g_prompt :: string
  g_use_history :: bool
  g_save_to_history :: bool
  g_kwargs :: params
  g_point :: gen_point

definition generate_stream :: "string \<Rightarrow> bool \<Rightarrow> bool \<Rightarrow> params \<Rightarrow> stream_gen" where
  "generate_stream prompt use_history save_to_history kwargs =
     \<lparr>g_prompt = prompt, g_use_history = use_history, g_save_to_history = save_to_history,
      g_kwargs = kwargs, g_point = NotStarted\<rparr>"

text \<open>The stream chosen at the top of the \<open>try\<close> block.\<close>

definition select_stream :: "llm_client \<Rightarrow> stream_gen \<Rightarrow> fragment_stream" where
  "select_stream c g =
     (let params = default_params c ++ g_kwargs g in
      if g_use_history g \<and> \<not> is_empty (history c)
      then f_chat_stream (facade c)
             (get_as_messages (history c) None @ [user_message (g_prompt g)]) params
      else f_generate_stream (facade c) (g_prompt g) params)"

text \<open>
  One turn of \<open>for chunk in stream\<close> and what follows it: a fragment is buffered and
  yielded; when the stream ends, the buffer is joined and recorded if asked for, and the
  generator returns; when the stream raises, the handler yields the error fragment.
\<close>

definition pull ::
  "llm_client \<Rightarrow> nat \<Rightarrow> stream_gen \<Rightarrow> string list \<Rightarrow> string option \<Rightarrow> string list
     \<Rightarrow> string option \<times> stream_gen \<times> llm_client" where
  "pull c now g rest fin full =
     (case rest of
        chunk # rest' \<Rightarrow> (Some chunk, g\<lparr>g_point := InLoop rest' fin (full @ [chunk])\<rparr>, c)
      | [] \<Rightarrow>
          (case fin of
             None \<Rightarrow>
               (None, g\<lparr>g_point := Finished\<rparr>,
                if g_save_to_history g
                then c\<lparr>history := add_interaction (history c) (g_prompt g)
                         \<lparr>content = concat full, model = f_model_name (facade c),
                          provider = f_provider_name (facade c), usage = None,
                          metadata = None, timestamp = now, error = None\<rparr>\<rparr>
                else c)
           | Some e \<Rightarrow> (Some (''Error: '' @ e), g\<lparr>g_point := InHandler\<rparr>, c)))"

text \<open>One \<open>next()\<close> on the generator; \<open>None\<close> is \<open>StopIteration\<close>.\<close>

definition gen_next ::
  "llm_client \<Rightarrow> nat \<Rightarrow> stream_gen \<Rightarrow> string option \<times> stream_gen \<times> llm_client" where
  "gen_next c now g =
     (case g_point g of
        NotStarted \<Rightarrow> (case select_stream c g of (chunks, fin) \<Rightarrow> pull c now g chunks fin [])
      | InLoop rest fin full \<Rightarrow> pull c now g rest fin full
      | InHandler \<Rightarrow> (None, g\<lparr>g_point := Finished\<rparr>, c)
      | Finished \<Rightarrow> (None, g, c))"

text \<open>
  The number of \<open>next()\<close> calls that can still yield a fragment bounds the caller's loop
  \<open>for fragment in client.generate_stream(...)\<close>.
\<close>

definition pending :: "llm_client \<Rightarrow> stream_gen \<Rightarrow> nat" where
  "pending c g =
     (case g_point g of
        NotStarted \<Rightarrow> length (fst (select_stream c g)) + 2
      | InLoop rest fin full \<Rightarrow> length rest + 2
      | InHandler \<Rightarrow> 1
      | Finished \<Rightarrow> 0)"

text \<open>
  The caller's loop \<open>for fragment in client.generate_stream(...)\<close>: \<open>next()\<close> is called
  until the generator stops, and the fragments received are collected in order.
\<close>

function drain ::
  "llm_client \<Rightarrow> nat \<Rightarrow> stream_gen \<Rightarrow> string list \<times> stream_gen \<times> llm_client" where
  "drain c now g =
     (case gen_next c now g of
        (None, g', c') \<Rightarrow> ([], g', c')
      | (Some fragment, g', c') \<Rightarrow>
          (case drain c' now g' of (received, g'', c'') \<Rightarrow> (fragment # received, g'', c'')))"
  by pat_completeness auto
termination
  apply (relation "measure (\<lambda>(c, now, g). pending c g)")
   apply simp
  apply (auto simp: gen_next_def pull_def pending_def select_stream_def Let_def
      split: gen_point.splits list.splits option.splits prod.splits if_splits)
  done

declare drain.simps [simp del]

section \<open>LLMProvider (llm\_provider.py)\<close>

text \<open>
  What the factories raise. The \<open>ValueError\<close>s of the two factories carry the values
  their messages are formatted from; \<open>Raised s\<close> is any other exception, raised by a
  provider class or a provider, with \<open>str(e) = s\<close>.
\<close>

datatype error =
    NoProvider
  | NoModel
  | NotRegistered string "string list"
  | ModelNotSupported string string "string list"
  | Raised string

text \<open>
  A provider instance: the attributes of \<open>LLMProvider.__init__\<close> and the abstract
  methods \<open>get_available_models\<close> and \<open>create_facade\<close>. A provider class is its
  constructor \<open>provider_class(provider_name, api_key, config)\<close>, which may raise.
\<close>

record llm_provider =
  p_provider_name :: string
  p_api_key :: "string option"
  p_config :: "pyval option"
  get_available_models :: "string list"
  create_facade :: "string \<Rightarrow> params \<Rightarrow> error + facade"

type_synonym provider_class = "string \<Rightarrow> string option \<Rightarrow> pyval option \<Rightarrow> error + llm_provider"

definition supports_model :: "llm_provider \<Rightarrow> string \<Rightarrow> bool" where
  "supports_model p model_name = (model_name \<in> set (get_available_models p))"

section \<open>LLMProviderFactory (llm\_provider\_factory.py)\<close>

text \<open>\<open>str.lower()\<close> and \<open>str.upper()\<close> on ASCII text.\<close>

definition lower_char :: "char \<Rightarrow> char" where
  "lower_char c = (let n = (of_char c :: nat) in if 65 \<le> n \<and> n \<le> 90 then char_of (n + 32) else c)"

definition upper_char :: "char \<Rightarrow> char" where
  "upper_char c = (let n = (of_char c :: nat) in if 97 \<le> n \<and> n \<le> 122 then char_of (n - 32) else c)"

definition str_lower :: "string \<Rightarrow> string" where
  "str_lower s = map lower_char s"

definition str_upper :: "string \<Rightarrow> string" where
  "str_upper s = map upper_char s"

text \<open>
  The singleton's state. The registry is an insertion-ordered dictionary (its keys are
  listed in error messages), kept as an association list with distinct keys. A provider
  object is a pair of its identity and its attributes: \<open>constructed\<close> counts the provider
  objects built so far and numbers the next one, so two references denote the identical
  object exactly when the identities agree. \<open>environ\<close> is \<open>os.environ\<close>.
\<close>

type_synonym provider_instance = "nat \<times> llm_provider"

record llm_provider_factory =
  provider_registry :: "(string \<times> provider_class) list"
  provider_instances :: "string \<rightharpoonup> provider_instance"
  constructed :: nat
  environ :: "string \<rightharpoonup> string"

definition register_provider ::
  "llm_provider_factory \<Rightarrow> string \<Rightarrow> provider_class \<Rightarrow> llm_provider_factory" where
  "register_provider pf provider_name provider_class =
     pf\<lparr>provider_registry :=
          AList.update (str_lower provider_name) provider_class (provider_registry pf)\<rparr>"

definition is_provider_registered :: "llm_provider_factory \<Rightarrow> string \<Rightarrow> bool" where
  "is_provider_registered pf provider_name =
     (str_lower provider_name \<in> set (map fst (provider_registry pf)))"

definition get_available_providers :: "llm_provider_factory \<Rightarrow> string list" where
  "get_available_providers pf = map fst (provider_registry pf)"

definition get_provider ::
  "llm_provider_factory \<Rightarrow> string \<Rightarrow> string option \<Rightarrow> pyval option \<Rightarrow> bool
     \<Rightarrow> (error + provider_instance) \<times> llm_provider_factory" where
  "get_provider pf provider_name api_key config use_cache =
     (let provider_key = str_lower provider_name in
      case (if use_cache then provider_instances pf provider_key else None) of
        Some inst \<Rightarrow> (Inr inst, pf)
      | None \<Rightarrow>
          (case map_of (provider_registry pf) provider_key of
             None \<Rightarrow> (Inl (NotRegistered provider_name (map fst (provider_registry pf))), pf)
           | Some provider_class \<Rightarrow>
               (let api_key' = (case api_key of
                                  None \<Rightarrow> environ pf (str_upper provider_name @ ''_API_KEY'')
                                | Some k \<Rightarrow> Some k)
                in case provider_class provider_name api_key' config of
                     Inl e \<Rightarrow> (Inl e, pf)
                   | Inr p \<Rightarrow>
                       (let inst = (constructed pf, p);
                            pf' = pf\<lparr>constructed := Suc (constructed pf)\<rparr>
                        in (Inr inst,
                            if use_cache
                            then pf'\<lparr>provider_instances :=
                                       (provider_instances pf')(provider_key \<mapsto> inst)\<rparr>
                            else pf')))))"

definition clear_cache :: "llm_provider_factory \<Rightarrow> string option \<Rightarrow> llm_provider_factory" where
  "clear_cache pf provider_name =
     (case provider_name of
        Some n \<Rightarrow> if n \<noteq> [] then pf\<lparr>provider_instances := (provider_instances pf)(str_lower n := None)\<rparr>
                  else pf\<lparr>provider_instances := Map.empty\<rparr>
      | None \<Rightarrow> pf\<lparr>provider_instances := Map.empty\<rparr>)"

section \<open>LLMClientFactory (llm\_client\_factory.py)\<close>

text \<open>
  The records the factory's logger receives in \<open>create_client\<close>: \<open>info\<close> after a client
  is built, \<open>error\<close> in the \<open>except\<close> branch, \<open>warning\<close> before the fallback call.
\<close>

datatype log_record = CreatedClient string string | ErrorCreating error | FallingBack

text \<open>
  The singleton's state: the loaded configuration (a dictionary, or \<open>None\<close> before
  \<open>load_config\<close>), the two defaults, the provider factory it holds, and its log.
\<close>

record llm_client_factory =
  config :: "(string \<times> pyval) list option"
  default_provider :: "string option"
  default_model :: "string option"
  provider_factory :: llm_provider_factory
  log :: "log_record list"

definition set_defaults :: "llm_client_factory \<Rightarrow> string \<Rightarrow> string \<Rightarrow> llm_client_factory" where
  "set_defaults cf p m = cf\<lparr>default_provider := Some p, default_model := Some m\<rparr>"

text \<open>
  The test of the \<open>except\<close> branch on the configuration:
  \<open>self._config and self._config.get('fallback_to_mock', False)\<close>.
\<close>

definition fallback_to_mock :: "llm_client_factory \<Rightarrow> bool" where
  "fallback_to_mock cf =
     (case config cf of
        None \<Rightarrow> False
      | Some d \<Rightarrow> d \<noteq> [] \<and> (case map_of d ''fallback_to_mock'' of
                                None \<Rightarrow> False
                              | Some v \<Rightarrow> truthy v))"

text \<open>
  The body of the \<open>try\<close> block of \<open>create_client\<close>, for a resolved provider and model
  name: the provider is obtained from the provider factory (cache in use), the model
  is validated, the facade is built and wrapped in a client. What \<open>get_provider\<close> did
  to the provider factory stays done when a later line raises.
\<close>

definition try_create ::
  "llm_client_factory \<Rightarrow> string \<Rightarrow> string \<Rightarrow> string option \<Rightarrow> nat \<Rightarrow> params
     \<Rightarrow> (error + llm_client) \<times> llm_client_factory" where
  "try_create cf provider_name model_name api_key history_size kwargs =
     (case get_provider (provider_factory cf) provider_name api_key
             (kwargs ''provider_config'') True of
        (Inl e, pf) \<Rightarrow> (Inl e, cf\<lparr>provider_factory := pf\<rparr>)
      | (Inr inst, pf) \<Rightarrow>
          (let cf' = cf\<lparr>provider_factory := pf\<rparr>; p = snd inst in
           if \<not> supports_model p model_name
           then (Inl (ModelNotSupported model_name provider_name (get_available_models p)), cf')
           else (case create_facade p model_name kwargs of
                   Inl e \<Rightarrow> (Inl e, cf')
                 | Inr f \<Rightarrow>
                     (Inr (new_client f history_size),
                      cf'\<lparr>log := log cf' @ [CreatedClient provider_name model_name]\<rparr>))))"

text \<open>
  Both names are resolved the same way: the explicit argument, else the configured
  default; \<open>None\<close> when both are absent.
\<close>

definition or_default :: "string option \<Rightarrow> string option \<Rightarrow> string option" where
  "or_default arg dflt = (case arg of None \<Rightarrow> dflt | Some v \<Rightarrow> Some v)"

text \<open>
  \<open>create_client\<close>. The two names are resolved before the \<open>try\<close> block; the \<open>except\<close>
  branch logs the error and either calls \<open>create_client\<close> again for \<open>'mock'\<close> and
  \<open>'mock-model'\<close> (passing the history size only) or raises the error again.
\<close>

function create_client ::
  "llm_client_factory \<Rightarrow> string option \<Rightarrow> string option \<Rightarrow> string option \<Rightarrow> nat \<Rightarrow> params
     \<Rightarrow> (error + llm_client) \<times> llm_client_factory" where
  "create_client cf provider_name model_name api_key history_size kwargs =
     (case or_default provider_name (default_provider cf) of
        None \<Rightarrow> (Inl NoProvider, cf)
      | Some pn \<Rightarrow>
          (case or_default model_name (default_model cf) of
             None \<Rightarrow> (Inl NoModel, cf)
           | Some mn \<Rightarrow>
               (case try_create cf pn mn api_key history_size kwargs of
                  (Inr client, cf1) \<Rightarrow> (Inr client, cf1)
                | (Inl e, cf1) \<Rightarrow>
                    (let cf2 = cf1\<lparr>log := log cf1 @ [ErrorCreating e]\<rparr> in
                     if fallback_to_mock cf2 \<and> pn \<noteq> ''mock''
                     then create_client (cf2\<lparr>log := log cf2 @ [FallingBack]\<rparr>)
                            (Some ''mock'') (Some ''mock-model'') None history_size Map.empty
                     else (Inl e, cf2)))))"
  by pat_completeness auto
termination
  apply (relation "measure (\<lambda>(cf, provider_name, rest). if provider_name = Some ''mock'' then 0 else 1)")
   apply simp
  apply (auto simp: or_default_def)
  done

declare create_client.simps [simp del]

section \<open>Sample collaborators\<close>

text \<open>
  Concrete facades, clients, a provider class and factory states on which the theorems
  below are exercised. \<open>sample_facade\<close> always answers. \<open>raising_facade\<close> raises in
  every operation, its streams after two fragments. \<open>silent_facade\<close> raises in
  \<open>generate\<close> an exception without a message (as \<open>raise NotImplementedError\<close> does,
  whose \<open>str\<close> is empty).
\<close>

definition no_kwargs :: params where
  "no_kwargs = Map.empty"

definition sample_response :: "string \<Rightarrow> llm_response" where
  "sample_response text =
     \<lparr>content = text, model = ''mock-model'', provider = ''mock'', usage = None,
      metadata = None, timestamp = 0, error = None\<rparr>"

definition sample_facade :: facade where
  "sample_facade =
     \<lparr>f_model_name = ''mock-model'', f_provider_name = ''mock'', f_api_key = None,
      f_config = Map.empty,
      f_generate = (\<lambda>prompt params. Inr (sample_response (''Mock response to: '' @ prompt))),
      f_generate_stream = (\<lambda>prompt params. ([''Mock '', ''response ''], None)),
      f_chat = (\<lambda>messages params. Inr (sample_response ''Mock chat response'')),
      f_chat_stream = (\<lambda>messages params. ([''Mock '', ''chat ''], None))\<rparr>"

definition raising_facade :: facade where
  "raising_facade =
     \<lparr>f_model_name = ''mock-model'', f_provider_name = ''mock'', f_api_key = None,
      f_config = Map.empty,
      f_generate = (\<lambda>prompt params. Inl ''boom''),
      f_generate_stream = (\<lambda>prompt params. ([''par'', ''tial''], Some ''boom'')),
      f_chat = (\<lambda>messages params. Inl ''connection reset''),
      f_chat_stream = (\<lambda>messages params. ([''par'', ''tial''], Some ''boom''))\<rparr>"


text \<open>A client of \<open>sample_facade\<close> after one recorded interaction, and the same on the
  other facades.\<close>

definition sample_client :: llm_client where
  "sample_client =
     \<lparr>facade = sample_facade,
      history = \<lparr>max_history = 50, entries = [interaction_of ''q'' (sample_response ''a'')]\<rparr>,
      default_params = Map.empty\<rparr>"

definition raising_client :: llm_client where
  "raising_client = sample_client\<lparr>facade := raising_facade\<rparr>"


definition sample_provider :: "string \<Rightarrow> string option \<Rightarrow> pyval option \<Rightarrow> llm_provider" where
  "sample_provider name key cfg =
     \<lparr>p_provider_name = name, p_api_key = key, p_config = cfg,
      get_available_models = [''mock-model'', ''mock-model-large'', ''mock-model-fast''],
      create_facade = (\<lambda>model_name kwargs.
         Inr (sample_facade\<lparr>f_model_name := model_name, f_provider_name := name,
                             f_api_key := key\<rparr>))\<rparr>"

definition sample_provider_class :: provider_class where
  "sample_provider_class name key cfg = Inr (sample_provider name key cfg)"

text \<open>
  A provider factory with one class registered under \<open>mock\<close> and nothing cached, and a
  client factory on top of it whose loaded configuration enables the fallback and whose
  defaults are unset (a configuration file with \<open>"fallback_to_mock": true\<close> and
  \<open>"defaults": {"provider": null, "model": null}\<close> leaves \<open>load_config\<close> in this state).
\<close>

definition sample_provider_factory :: llm_provider_factory where
  "sample_provider_factory =
     \<lparr>provider_registry = [(''mock'', sample_provider_class)],
      provider_instances = Map.empty, constructed = 0, environ = Map.empty\<rparr>"

definition sample_client_factory :: llm_client_factory where
  "sample_client_factory =
     \<lparr>config = Some [(''fallback_to_mock'', PyBool True)],
      default_provider = None, default_model = None,
      provider_factory = sample_provider_factory, log = []\<rparr>"

text \<open>The same client factory over a provider factory with nothing registered.\<close>

definition bare_client_factory :: llm_client_factory where
  "bare_client_factory =
     sample_client_factory\<lparr>provider_factory := sample_provider_factory\<lparr>provider_registry := []\<rparr>\<rparr>"

section \<open>Properties of the interaction history\<close>

lemma max_history_add_interaction: "max_history (add_interaction h p r) = max_history h"
  by (simp add: add_interaction_def)

lemma max_history_add_all: "max_history (add_all h prs) = max_history h"
  by (induction prs arbitrary: h) (simp_all add: max_history_add_interaction)

lemma deque_append_window:
  "length xs \<le> n \<Longrightarrow> deque_append n xs x = drop (Suc (length xs) - n) (xs @ [x])"
  by (cases xs) (auto simp: deque_append_def Let_def Suc_diff_le drop_Cons')

lemma length_deque_append: "length xs \<le> n \<Longrightarrow> length (deque_append n xs x) \<le> n"
  by (auto simp: deque_append_def Let_def)

lemma new_history_bounded: "length (entries (new_history n)) \<le> max_history (new_history n)"
  by (simp add: new_history_def)

lemma add_interaction_bounded:
  "length (entries h) \<le> max_history h \<Longrightarrow>
   length (entries (add_interaction h p r)) \<le> max_history (add_interaction h p r)"
  by (simp add: add_interaction_def length_deque_append)

lemma entries_add_all:
  "length (entries h) \<le> max_history h \<Longrightarrow>
   entries (add_all h prs) =
     drop (length (entries h) + length prs - max_history h)
       (entries h @ map (\<lambda>pr. interaction_of (fst pr) (snd pr)) prs)"
proof (induction prs arbitrary: h)
  case Nil
  then show ?case by simp
next
  case (Cons pr rest)
  let ?h = "add_interaction h (fst pr) (snd pr)"
  let ?x = "interaction_of (fst pr) (snd pr)"
  have e: "entries ?h = drop (Suc (length (entries h)) - max_history h) (entries h @ [?x])"
    using Cons.prems by (simp add: add_interaction_def deque_append_window)
  have l: "length (entries ?h) \<le> max_history ?h"
    using Cons.prems by (simp add: add_interaction_def length_deque_append)
  have "entries (add_all h (pr # rest)) = entries (add_all ?h rest)" by simp
  also have "\<dots> = drop (length (entries ?h) + length rest - max_history ?h)
       (entries ?h @ map (\<lambda>pr. interaction_of (fst pr) (snd pr)) rest)"
    using Cons.IH [OF l] .
  also have "\<dots> = drop (length (entries h) + length (pr # rest) - max_history h)
       (entries h @ map (\<lambda>pr. interaction_of (fst pr) (snd pr)) (pr # rest))"
  proof (cases "length (entries h) < max_history h")
    case True
    then show ?thesis unfolding e by (simp add: max_history_add_interaction Suc_diff_le)
  next
    case False
    with Cons.prems have eq: "length (entries h) = max_history h" by simp
    show ?thesis unfolding e using eq by (simp add: max_history_add_interaction Suc_diff_le drop_Cons')
  qed
  finally show ?case .
qed

text \<open>
  Claim C2. Take a history that respects its capacity \<open>N\<close> (every history does: it starts
  empty and \<open>add_interaction\<close> keeps the bound) and add \<open>k > N\<close> interactions to it.
  Then \<open>size()\<close> is \<open>N\<close> and \<open>get_history()\<close> without an argument is the list of the
  last \<open>N\<close> interactions added, oldest first.
\<close>

theorem history_keeps_last_N:
  assumes "length (entries h) \<le> max_history h" and "max_history h < length prs"
  shows "size_of (add_all h prs) = max_history h \<and>
         get_history (add_all h prs) None =
           drop (length prs - max_history h) (map (\<lambda>pr. interaction_of (fst pr) (snd pr)) prs)"
  using assms by (simp add: size_of_def get_history_def entries_add_all)


theorem history_keeps_last_N_witness:
  "length (entries (new_history 1)) \<le> max_history (new_history 1) \<and>
   max_history (new_history 1) < length [(''a'', sample_response ''x''), (''b'', sample_response ''y'')] \<and>
   size_of (add_all (new_history 1) [(''a'', sample_response ''x''), (''b'', sample_response ''y'')]) = 1 \<and>
   get_history (add_all (new_history 1) [(''a'', sample_response ''x''), (''b'', sample_response ''y'')]) None =
     [interaction_of ''b'' (sample_response ''y'')]"
  using history_keeps_last_N [of "new_history 1" "[(''a'', sample_response ''x''), (''b'', sample_response ''y'')]"]
  by (simp add: new_history_def)

lemma append_messages_acc:
  "append_messages acc xs =
     acc @ concat (map (\<lambda>i. [user_message (i_prompt i), assistant_message (i_response i)]) xs)"
  by (induction xs arbitrary: acc) simp_all

lemma length_concat_pairs: "length (concat (map (\<lambda>i. [f i, g i]) xs)) = 2 * length xs"
  by (induction xs) simp_all

lemma nth_concat_pairs:
  "j < length xs \<Longrightarrow>
   concat (map (\<lambda>i. [f i, g i]) xs) ! (2 * j) = f (xs ! j) \<and>
   concat (map (\<lambda>i. [f i, g i]) xs) ! (2 * j + 1) = g (xs ! j)"
proof (induction xs arbitrary: j)
  case Nil
  then show ?case by simp
next
  case (Cons x xs)
  show ?case
  proof (cases j)
    case 0
    then show ?thesis by simp
  next
    case (Suc k)
    with Cons.prems have "k < length xs" by simp
    from Cons.IH [OF this] show ?thesis using Suc by simp
  qed
qed

text \<open>
  Claim C5. For every history and every argument \<open>n\<close> (also \<open>None\<close>),
  \<open>get_as_messages(n)\<close> has twice as many messages as \<open>get_history(n)\<close> selects
  interactions; the message at position \<open>2j\<close> has role \<open>user\<close> and carries the prompt
  of the \<open>j\<close>-th selected interaction, and the message at position \<open>2j + 1\<close> has role
  \<open>assistant\<close> and carries its response content.
\<close>

theorem as_messages_alternate:
  "length (get_as_messages h n) = 2 * length (get_history h n) \<and>
   (\<forall>j < length (get_history h n).
      get_as_messages h n ! (2 * j) =
        [''role'' \<mapsto> ''user'', ''content'' \<mapsto> i_prompt (get_history h n ! j)] \<and>
      get_as_messages h n ! (2 * j + 1) =
        [''role'' \<mapsto> ''assistant'', ''content'' \<mapsto> i_response (get_history h n ! j)])"
  using nth_concat_pairs [of _ "get_history h n" "\<lambda>i. user_message (i_prompt i)" "\<lambda>i. assistant_message (i_response i)"]
  by (simp add: get_as_messages_def append_messages_acc length_concat_pairs user_message_def assistant_message_def)

theorem as_messages_alternate_witness:
  "(0::nat) < length (get_history (history sample_client) (Some 1)) \<and>
   length (get_as_messages (history sample_client) (Some 1)) = 2 \<and>
   get_as_messages (history sample_client) (Some 1) ! 0 = [''role'' \<mapsto> ''user'', ''content'' \<mapsto> ''q''] \<and>
   get_as_messages (history sample_client) (Some 1) ! 1 = [''role'' \<mapsto> ''assistant'', ''content'' \<mapsto> ''a'']"
proof -
  have sel: "get_history (history sample_client) (Some 1) = [interaction_of ''q'' (sample_response ''a'')]"
    by (simp add: sample_client_def get_history_def slice_from_def)
  show ?thesis
    using as_messages_alternate [of "history sample_client" "Some 1"]
    by (simp add: sel interaction_of_def sample_response_def)
qed

lemma slice_from_0: "slice_from 0 xs = xs"
  by (simp add: slice_from_def)

section \<open>Properties of the client\<close>




lemma first_user_content_append:
  "m ''role'' = Some ''user'' \<Longrightarrow> m ''content'' = Some x \<Longrightarrow>
   \<forall>m' \<in> set skipped. m' ''role'' \<noteq> Some ''user'' \<Longrightarrow>
   first_user_content (skipped @ m # rest) = Inr x"
  by (induction skipped) simp_all

text \<open>
  Claim C6, as amended. Let the messages contain a message with role \<open>user\<close> and
  non-empty content \<open>x\<close> after which no message has role \<open>user\<close> (messages of any role
  may come before it, messages of other roles after it). If the facade's \<open>chat\<close> returns
  a response without error, \<open>chat\<close> with \<open>save_to_history=True\<close> returns that response
  and adds exactly the interaction of \<open>x\<close> and the response to the history.
\<close>

theorem chat_records_last_user_message:
  assumes "f_chat (facade c) messages (default_params c ++ kwargs) = Inr response"
      and "error response = None"
      and "messages = before @ m # after"
      and "m ''role'' = Some ''user''" and "m ''content'' = Some x"
      and "\<forall>m' \<in> set after. m' ''role'' \<noteq> Some ''user''"
      and "x \<noteq> []"
  shows "chat c now messages True kwargs =
           (response, c\<lparr>history := add_interaction (history c) x response\<rparr>)"
proof -
  have "rev messages = rev after @ m # rev before" using assms(3) by simp
  moreover have "\<forall>m' \<in> set (rev after). m' ''role'' \<noteq> Some ''user''" using assms(6) by simp
  ultimately have "first_user_content (rev messages) = Inr x"
    using first_user_content_append [OF assms(4,5)] by simp
  moreover have "messages \<noteq> []" using assms(3) by simp
  ultimately show ?thesis using assms(1,2,7) by (simp add: chat_def Let_def)
qed

theorem chat_records_last_user_message_witness:
  "f_chat (facade sample_client)
     [[''role'' \<mapsto> ''system'', ''content'' \<mapsto> ''be brief''], user_message ''X'', assistant_message ''ok'']
     (default_params sample_client ++ no_kwargs) = Inr (sample_response ''Mock chat response'') \<and>
   chat sample_client 0
     [[''role'' \<mapsto> ''system'', ''content'' \<mapsto> ''be brief''], user_message ''X'', assistant_message ''ok'']
     True no_kwargs =
     (sample_response ''Mock chat response'',
      sample_client\<lparr>history := add_interaction (history sample_client) ''X''
                                  (sample_response ''Mock chat response'')\<rparr>)"
  using chat_records_last_user_message [of sample_client
      "[[''role'' \<mapsto> ''system'', ''content'' \<mapsto> ''be brief''], user_message ''X'', assistant_message ''ok'']"
      no_kwargs "sample_response ''Mock chat response''"
      "[[''role'' \<mapsto> ''system'', ''content'' \<mapsto> ''be brief'']]" "user_message ''X''"
      "[assistant_message ''ok'']" "''X''" 0]
  by (simp add: sample_client_def sample_facade_def sample_response_def user_message_def assistant_message_def)

text \<open>
  A last user message with empty content: the chat succeeds and the client, history
  included, is returned as it was.
\<close>

theorem chat_records_last_user_message_counterexample:
  "f_chat (facade sample_client) [user_message []] (default_params sample_client ++ no_kwargs)
     = Inr (sample_response ''Mock chat response'') \<and>
   error (sample_response ''Mock chat response'') = None \<and>
   user_message [] ''role'' = Some ''user'' \<and> user_message [] ''content'' = Some [] \<and>
   chat sample_client 0 [user_message []] True no_kwargs =
     (sample_response ''Mock chat response'', sample_client)"
  by (simp add: chat_def sample_client_def sample_facade_def sample_response_def user_message_def)

lemma chat_trailing_user_message:
  "chat c now (msgs @ [user_message p]) save kw =
     (case f_chat (facade c) (msgs @ [user_message p]) (default_params c ++ kw) of
        Inl e \<Rightarrow> (error_response c now e, c)
      | Inr r \<Rightarrow>
          (r, if save \<and> error r = None \<and> p \<noteq> []
              then c\<lparr>history := add_interaction (history c) p r\<rparr> else c))"
  by (simp add: chat_def Let_def user_message_def split: sum.splits)

lemma multi_shot_generate_messages_key:
  "kwargs ''messages'' = Some v \<Longrightarrow>
   multi_shot_generate c now prompt n_shots kwargs = Inl (MultipleValues ''messages'')"
  by (simp add: multi_shot_generate_def)

text \<open>
  Claim C10. On a client whose history is not empty, \<open>get_history(0)\<close> returns every
  stored interaction, as \<open>get_history()\<close> does, and not the empty list.
  \<open>get_as_messages(0)\<close> is the rendering of every stored interaction (a user message
  with the prompt and an assistant message with the response for each, in order), as
  \<open>get_as_messages()\<close> is; it has two messages per stored interaction and is not empty.
  \<open>multi_shot_generate(prompt, n_shots=0)\<close>, called with keywords that do not name
  \<open>messages\<close>, returns what \<open>chat\<close> returns on that whole rendering followed by the new
  prompt as a user message: the facade's \<open>chat\<close> receives exactly this message list, and
  its answer is recorded under the prompt when saving is on, the answer carries no error
  and the prompt is not empty.
\<close>

theorem zero_selects_everything:
  assumes "entries (history c) \<noteq> []" and "kwargs ''messages'' = None"
  shows "get_history (history c) (Some 0) = entries (history c) \<and>
         get_history (history c) (Some 0) = get_history (history c) None \<and>
         get_history (history c) (Some 0) \<noteq> [] \<and>
         get_as_messages (history c) (Some 0) =
           concat (map (\<lambda>i. [[''role'' \<mapsto> ''user'', ''content'' \<mapsto> i_prompt i],
                             [''role'' \<mapsto> ''assistant'', ''content'' \<mapsto> i_response i]])
                    (entries (history c))) \<and>
         get_as_messages (history c) (Some 0) = get_as_messages (history c) None \<and>
         get_as_messages (history c) (Some 0) \<noteq> [] \<and>
         length (get_as_messages (history c) (Some 0)) = 2 * length (entries (history c)) \<and>
         multi_shot_generate c now prompt 0 kwargs =
           Inr (chat c now
                  (concat (map (\<lambda>i. [[''role'' \<mapsto> ''user'', ''content'' \<mapsto> i_prompt i],
                                    [''role'' \<mapsto> ''assistant'', ''content'' \<mapsto> i_response i]])
                           (entries (history c)))
                   @ [[''role'' \<mapsto> ''user'', ''content'' \<mapsto> prompt]])
                  (case kwargs ''save_to_history'' of None \<Rightarrow> True | Some v \<Rightarrow> truthy v)
                  (kwargs(''save_to_history'' := None))) \<and>
         multi_shot_generate c now prompt 0 kwargs =
           Inr (case f_chat (facade c)
                       (concat (map (\<lambda>i. [[''role'' \<mapsto> ''user'', ''content'' \<mapsto> i_prompt i],
                                         [''role'' \<mapsto> ''assistant'', ''content'' \<mapsto> i_response i]])
                                (entries (history c)))
                        @ [[''role'' \<mapsto> ''user'', ''content'' \<mapsto> prompt]])
                       (default_params c ++ kwargs(''save_to_history'' := None)) of
                  Inl e \<Rightarrow> (error_response c now e, c)
                | Inr r \<Rightarrow>
                    (r, if (case kwargs ''save_to_history'' of None \<Rightarrow> True | Some v \<Rightarrow> truthy v)
                           \<and> error r = None \<and> prompt \<noteq> []
                        then c\<lparr>history := add_interaction (history c) prompt r\<rparr> else c))"
proof -
  let ?render = "concat (map (\<lambda>i. [[''role'' \<mapsto> ''user'', ''content'' \<mapsto> i_prompt i],
                             [''role'' \<mapsto> ''assistant'', ''content'' \<mapsto> i_response i]])
                    (entries (history c)))"
  have g0: "get_history (history c) (Some 0) = entries (history c)"
    by (simp add: get_history_def slice_from_0)
  have gN: "get_history (history c) None = entries (history c)"
    by (simp add: get_history_def)
  have m0: "get_as_messages (history c) (Some 0) = ?render"
    by (simp add: get_as_messages_def g0 append_messages_acc user_message_def assistant_message_def)
  have mN: "get_as_messages (history c) None = ?render"
    by (simp add: get_as_messages_def gN append_messages_acc user_message_def assistant_message_def)
  have len: "length ?render = 2 * length (entries (history c))"
    by (rule length_concat_pairs)
  have ne: "?render \<noteq> []" using assms(1) len by (cases "entries (history c)") auto
  have u: "[''role'' \<mapsto> ''user'', ''content'' \<mapsto> prompt] = user_message prompt"
    by (simp add: user_message_def)
  have ms: "multi_shot_generate c now prompt 0 kwargs =
           Inr (chat c now (?render @ [user_message prompt])
                  (case kwargs ''save_to_history'' of None \<Rightarrow> True | Some v \<Rightarrow> truthy v)
                  (kwargs(''save_to_history'' := None)))"
    using assms(2) by (simp add: multi_shot_generate_def Let_def m0)
  show ?thesis
    unfolding u using assms(1) g0 gN m0 mN len ne ms
    by (simp add: chat_trailing_user_message)
qed

theorem zero_selects_everything_witness:
  "entries (history sample_client) \<noteq> [] \<and> no_kwargs ''messages'' = None \<and>
   get_history (history sample_client) (Some 0) = [interaction_of ''q'' (sample_response ''a'')] \<and>
   get_as_messages (history sample_client) (Some 0) =
     [[''role'' \<mapsto> ''user'', ''content'' \<mapsto> ''q''],
      [''role'' \<mapsto> ''assistant'', ''content'' \<mapsto> ''a'']] \<and>
   multi_shot_generate sample_client 7 ''next'' 0 no_kwargs =
     Inr (sample_response ''Mock chat response'',
          sample_client\<lparr>history := add_interaction (history sample_client) ''next''
                                      (sample_response ''Mock chat response'')\<rparr>)"
proof -
  have e: "entries (history sample_client) = [interaction_of ''q'' (sample_response ''a'')]"
    by (simp add: sample_client_def)
  have ne: "entries (history sample_client) \<noteq> []" by (simp add: e)
  have k: "no_kwargs ''messages'' = None" by (simp add: no_kwargs_def)
  have s: "no_kwargs ''save_to_history'' = None" by (simp add: no_kwargs_def)
  have f: "f_chat (facade sample_client) msgs ps = Inr (sample_response ''Mock chat response'')"
    for msgs ps by (simp add: sample_client_def sample_facade_def)
  have r: "error (sample_response ''Mock chat response'') = None"
    by (simp add: sample_response_def)
  note t = zero_selects_everything [of sample_client no_kwargs 7 "''next''", OF ne k]
  have "get_history (history sample_client) (Some 0) = entries (history sample_client)"
    using t by blast
  moreover have "get_as_messages (history sample_client) (Some 0) =
     [[''role'' \<mapsto> ''user'', ''content'' \<mapsto> ''q''],
      [''role'' \<mapsto> ''assistant'', ''content'' \<mapsto> ''a'']]"
    using t by (simp add: e interaction_of_def sample_response_def)
  moreover have "multi_shot_generate sample_client 7 ''next'' 0 no_kwargs =
     Inr (sample_response ''Mock chat response'',
          sample_client\<lparr>history := add_interaction (history sample_client) ''next''
                                      (sample_response ''Mock chat response'')\<rparr>)"
    using t [THEN conjunct2, THEN conjunct2, THEN conjunct2, THEN conjunct2, THEN conjunct2,
        THEN conjunct2, THEN conjunct2, THEN conjunct2]
    by (simp add: f r s)
  ultimately show ?thesis using ne k by (simp add: e)
qed

lemma drain_in_loop:
  "g_point g = InLoop rest fin full \<Longrightarrow>
   drain c now g =
     (rest @ (case fin of None \<Rightarrow> [] | Some e \<Rightarrow> [''Error: '' @ e]),
      g\<lparr>g_point := Finished\<rparr>,
      (case fin of
         None \<Rightarrow>
           if g_save_to_history g
           then c\<lparr>history := add_interaction (history c) (g_prompt g)
                    \<lparr>content = concat (full @ rest), model = f_model_name (facade c),
                     provider = f_provider_name (facade c), usage = None,
                     metadata = None, timestamp = now, error = None\<rparr>\<rparr>
           else c
       | Some e \<Rightarrow> c))"
proof (induction rest arbitrary: g full)
  case Nil
  show ?case
  proof (cases fin)
    case None
    then show ?thesis using Nil
      by (subst drain.simps) (simp add: gen_next_def pull_def)
  next
    case (Some e)
    have "drain c now (g\<lparr>g_point := InHandler\<rparr>) = ([], g\<lparr>g_point := Finished\<rparr>, c)"
      by (subst drain.simps) (simp add: gen_next_def)
    then show ?thesis using Nil Some
      by (subst drain.simps) (simp add: gen_next_def pull_def)
  qed
next
  case (Cons chunk rest)
  let ?g = "g\<lparr>g_point := InLoop rest fin (full @ [chunk])\<rparr>"
  have "g_point ?g = InLoop rest fin (full @ [chunk])" by simp
  from Cons.IH [OF this] show ?case using Cons.prems
    by (subst drain.simps) (simp add: gen_next_def pull_def split: option.splits)
qed


lemma gen_next_not_started:
  "g_point g = NotStarted \<Longrightarrow> select_stream c g = (chunks, fin) \<Longrightarrow>
   gen_next c now g = gen_next c now (g\<lparr>g_point := InLoop chunks fin []\<rparr>)"
  by (simp add: gen_next_def pull_def split: list.splits option.splits)

lemma drain_not_started:
  assumes "g_point g = NotStarted" and "select_stream c g = (chunks, fin)"
  shows "drain c now g = drain c now (g\<lparr>g_point := InLoop chunks fin []\<rparr>)"
proof -
  have "drain c now g =
          (case gen_next c now (g\<lparr>g_point := InLoop chunks fin []\<rparr>) of
             (None, g', c') \<Rightarrow> ([], g', c')
           | (Some fragment, g', c') \<Rightarrow>
               (case drain c' now g' of
                  (received, g'', c'') \<Rightarrow> (fragment # received, g'', c'')))"
    by (subst drain.simps) (simp only: gen_next_not_started [OF assms])
  also have "\<dots> = drain c now (g\<lparr>g_point := InLoop chunks fin []\<rparr>)"
    by (rule drain.simps [symmetric])
  finally show ?thesis .
qed

text \<open>
  Claim C4, as amended. Consume \<open>generate_stream(prompt, save_to_history=True)\<close> to
  exhaustion, and let the facade's stream yield \<open>chunks\<close>. If that stream ends without
  raising, the caller receives exactly \<open>chunks\<close> and one interaction is added whose
  response content is their concatenation, whatever the fragments contain (error
  markers included). If the stream raises \<open>e\<close>, the caller receives \<open>chunks\<close> followed by
  the fragment \<open>Error: e\<close>, and the client and its history are unchanged.
\<close>

theorem stream_recorded_unless_facade_raises:
  assumes "select_stream c (generate_stream prompt use_history True kwargs) = (chunks, fin)"
  shows "fst (drain c now (generate_stream prompt use_history True kwargs)) =
           chunks @ (case fin of None \<Rightarrow> [] | Some e \<Rightarrow> [''Error: '' @ e]) \<and>
         snd (snd (drain c now (generate_stream prompt use_history True kwargs))) =
           (case fin of
              None \<Rightarrow>
                c\<lparr>history := add_interaction (history c) prompt
                     \<lparr>content = concat chunks, model = f_model_name (facade c),
                      provider = f_provider_name (facade c), usage = None,
                      metadata = None, timestamp = now, error = None\<rparr>\<rparr>
            | Some e \<Rightarrow> c)"
proof -
  let ?g = "generate_stream prompt use_history True kwargs"
  have p: "g_point ?g = NotStarted" by (simp add: generate_stream_def)
  have q: "g_point (?g\<lparr>g_point := InLoop chunks fin []\<rparr>) = InLoop chunks fin []" by simp
  show ?thesis
    unfolding drain_not_started [OF p assms] drain_in_loop [OF q]
    by (simp add: generate_stream_def split: option.splits)
qed

theorem stream_recorded_unless_facade_raises_witness:
  "select_stream sample_client (generate_stream ''hello'' False True no_kwargs) = ([''Mock '', ''response ''], None) \<and>
   fst (drain sample_client 9 (generate_stream ''hello'' False True no_kwargs)) = [''Mock '', ''response ''] \<and>
   entries (history (snd (snd (drain sample_client 9 (generate_stream ''hello'' False True no_kwargs))))) =
     [interaction_of ''q'' (sample_response ''a''),
      \<lparr>i_prompt = ''hello'', i_response = ''Mock response '', i_model = ''mock-model'',
       i_provider = ''mock'', i_timestamp = 9, i_usage = None\<rparr>]"
  using stream_recorded_unless_facade_raises [of sample_client "''hello''" False no_kwargs
      "[''Mock '', ''response '']" None 9]
  by (simp add: select_stream_def generate_stream_def sample_client_def sample_facade_def
      add_interaction_def deque_append_def interaction_of_def)

text \<open>
  A facade stream that raises after two fragments: the caller receives three fragments,
  the last one the error marker, and the history holds what it held before.
\<close>

theorem stream_recorded_unless_facade_raises_counterexample:
  "select_stream raising_client (generate_stream ''hello'' False True no_kwargs) =
     ([''par'', ''tial''], Some ''boom'') \<and>
   fst (drain raising_client 0 (generate_stream ''hello'' False True no_kwargs)) =
     [''par'', ''tial'', ''Error: boom''] \<and>
   entries (history (snd (snd (drain raising_client 0
       (generate_stream ''hello'' False True no_kwargs))))) =
     entries (history raising_client)"
proof -
  let ?g = "generate_stream ''hello'' False True no_kwargs"
  have s: "select_stream raising_client ?g = ([''par'', ''tial''], Some ''boom'')"
    by (simp add: select_stream_def generate_stream_def raising_client_def raising_facade_def
        sample_client_def)
  have p: "g_point ?g = NotStarted" by (simp add: generate_stream_def)
  have q: "g_point (?g\<lparr>g_point := InLoop [''par'', ''tial''] (Some ''boom'') []\<rparr>) =
             InLoop [''par'', ''tial''] (Some ''boom'') []" by simp
  show ?thesis
    unfolding drain_not_started [OF p s] drain_in_loop [OF q] using s by simp
qed

section \<open>Properties of the provider factory\<close>

text \<open>
  Claim C7. For a registered provider name, when \<open>get_provider(name, use_cache=True)\<close>
  returns an instance, a second call for the same name with any key and any config
  returns the identical instance (same identity, same attributes) and leaves the factory
  as it was: nothing is constructed or cached again.
\<close>

theorem get_provider_cached_identity:
  assumes "is_provider_registered pf name"
      and "get_provider pf name key1 config1 True = (Inr inst, pf1)"
  shows "get_provider pf1 name key2 config2 True = (Inr inst, pf1)"
  using assms(2)
  by (auto simp: get_provider_def Let_def split: option.splits sum.splits)



theorem get_provider_cached_identity_witness:
  "is_provider_registered sample_provider_factory ''mock'' \<and>
   get_provider sample_provider_factory ''mock'' None None True =
     (Inr (0, sample_provider ''mock'' None None),
      sample_provider_factory\<lparr>constructed := 1,
        provider_instances := [''mock'' \<mapsto> (0, sample_provider ''mock'' None None)]\<rparr>) \<and>
   get_provider
     (sample_provider_factory\<lparr>constructed := 1,
        provider_instances := [''mock'' \<mapsto> (0, sample_provider ''mock'' None None)]\<rparr>)
     ''mock'' (Some ''sk-other'') (Some (PyDict [])) True =
     (Inr (0, sample_provider ''mock'' None None),
      sample_provider_factory\<lparr>constructed := 1,
        provider_instances := [''mock'' \<mapsto> (0, sample_provider ''mock'' None None)]\<rparr>)"
proof -
  have r: "is_provider_registered sample_provider_factory ''mock''"
    by (simp add: is_provider_registered_def sample_provider_factory_def str_lower_def lower_char_def)
  have g: "get_provider sample_provider_factory ''mock'' None None True =
     (Inr (0, sample_provider ''mock'' None None),
      sample_provider_factory\<lparr>constructed := 1,
        provider_instances := [''mock'' \<mapsto> (0, sample_provider ''mock'' None None)]\<rparr>)"
    by (simp add: get_provider_def sample_provider_factory_def sample_provider_class_def
        str_lower_def lower_char_def Let_def)
  from get_provider_cached_identity [OF r g, of "Some ''sk-other''" "Some (PyDict [])"] r g
  show ?thesis by simp
qed

section \<open>Properties of the client factory\<close>

lemma fallback_to_mock_log [simp]: "fallback_to_mock (cf\<lparr>log := l\<rparr>) = fallback_to_mock cf"
  by (simp add: fallback_to_mock_def)

lemma try_create_config:
  "try_create cf pn mn k h kw = (r, cf1) \<Longrightarrow> config cf1 = config cf"
  by (auto simp: try_create_def Let_def split: prod.splits sum.splits if_splits)

lemma try_create_fallback_to_mock:
  "try_create cf pn mn k h kw = (r, cf1) \<Longrightarrow> fallback_to_mock cf1 = fallback_to_mock cf"
  by (simp add: fallback_to_mock_def try_create_config)

lemma try_create_no_fallback_record:
  "try_create cf pn mn k h kw = (r, cf1) \<Longrightarrow>
   count_list (log cf1) FallingBack = count_list (log cf) FallingBack"
  by (auto simp: try_create_def Let_def split: prod.splits sum.splits if_splits)

lemma create_client_unresolved:
  "or_default provider_name (default_provider cf) = None \<Longrightarrow>
   create_client cf provider_name model_name api_key history_size kwargs = (Inl NoProvider, cf)"
  "or_default provider_name (default_provider cf) = Some pn \<Longrightarrow>
   or_default model_name (default_model cf) = None \<Longrightarrow>
   create_client cf provider_name model_name api_key history_size kwargs = (Inl NoModel, cf)"
  by (subst create_client.simps, simp)+

lemma create_client_success:
  "or_default provider_name (default_provider cf) = Some pn \<Longrightarrow>
   or_default model_name (default_model cf) = Some mn \<Longrightarrow>
   try_create cf pn mn api_key history_size kwargs = (Inr client, cf1) \<Longrightarrow>
   create_client cf provider_name model_name api_key history_size kwargs = (Inr client, cf1)"
  by (subst create_client.simps) simp

lemma create_client_failure:
  "or_default provider_name (default_provider cf) = Some pn \<Longrightarrow>
   or_default model_name (default_model cf) = Some mn \<Longrightarrow>
   try_create cf pn mn api_key history_size kwargs = (Inl e, cf1) \<Longrightarrow>
   create_client cf provider_name model_name api_key history_size kwargs =
     (if fallback_to_mock cf \<and> pn \<noteq> ''mock''
      then create_client (cf1\<lparr>log := log cf1 @ [ErrorCreating e, FallingBack]\<rparr>)
             (Some ''mock'') (Some ''mock-model'') None history_size Map.empty
      else (Inl e, cf1\<lparr>log := log cf1 @ [ErrorCreating e]\<rparr>))"
  by (subst create_client.simps) (simp add: Let_def try_create_fallback_to_mock)

lemma create_client_mock:
  "create_client cf (Some ''mock'') (Some mn) api_key history_size kwargs =
     (case try_create cf ''mock'' mn api_key history_size kwargs of
        (Inr client, cf1) \<Rightarrow> (Inr client, cf1)
      | (Inl e, cf1) \<Rightarrow> (Inl e, cf1\<lparr>log := log cf1 @ [ErrorCreating e]\<rparr>))"
  by (subst create_client.simps) (simp add: or_default_def Let_def split: prod.splits sum.splits)

text \<open>
  Claim C8. With no provider argument and no default provider configured,
  \<open>create_client\<close> fails with the "no provider" error and returns the factory state
  untouched: the provider factory is not called, no provider is constructed or cached,
  nothing is logged. This holds whatever the model argument and the configuration are.
\<close>

theorem create_client_no_provider:
  assumes "default_provider cf = None"
  shows "create_client cf None model_name api_key history_size kwargs = (Inl NoProvider, cf)"
  using assms by (simp add: create_client_unresolved(1) or_default_def)


theorem create_client_no_provider_witness:
  "default_provider sample_client_factory = None \<and>
   create_client sample_client_factory None None None 50 no_kwargs =
     (Inl NoProvider, sample_client_factory)"
  using create_client_no_provider [of sample_client_factory None None 50 no_kwargs]
  by (simp add: sample_client_factory_def)






lemma try_create_unregistered:
  "provider_instances (provider_factory cf) = Map.empty \<Longrightarrow>
   provider_registry (provider_factory cf) = [] \<Longrightarrow>
   try_create cf pn mn k h kw = (Inl (NotRegistered pn []), cf)"
  by (simp add: try_create_def get_provider_def)

text \<open>
  Claim C9. When a call falls back, its result is that of a single run of the \<open>try\<close>
  block for \<open>'mock'\<close> and \<open>'mock-model'\<close>: a client if that run succeeds, and
  otherwise that run's own error, logged and raised with no further fallback. Every
  \<open>create_client\<close> call adds at most one "falling back" warning to the log, so
  \<open>create_client\<close> calls itself at most once.
\<close>

theorem fallback_at_most_once:
  "(\<forall>pn mn e cf1.
      or_default provider_name (default_provider cf) = Some pn \<and>
      or_default model_name (default_model cf) = Some mn \<and>
      try_create cf pn mn api_key history_size kwargs = (Inl e, cf1) \<and>
      fallback_to_mock cf \<and> pn \<noteq> ''mock'' \<longrightarrow>
      create_client cf provider_name model_name api_key history_size kwargs =
        (case try_create (cf1\<lparr>log := log cf1 @ [ErrorCreating e, FallingBack]\<rparr>)
                ''mock'' ''mock-model'' None history_size Map.empty of
           (Inr client, cf3) \<Rightarrow> (Inr client, cf3)
         | (Inl e', cf3) \<Rightarrow> (Inl e', cf3\<lparr>log := log cf3 @ [ErrorCreating e']\<rparr>))) \<and>
   count_list (log (snd (create_client cf provider_name model_name api_key history_size kwargs)))
       FallingBack
     \<le> count_list (log cf) FallingBack + 1"
proof (intro conjI allI impI)
  fix pn mn e cf1
  assume a: "or_default provider_name (default_provider cf) = Some pn \<and>
      or_default model_name (default_model cf) = Some mn \<and>
      try_create cf pn mn api_key history_size kwargs = (Inl e, cf1) \<and>
      fallback_to_mock cf \<and> pn \<noteq> ''mock''"
  then show "create_client cf provider_name model_name api_key history_size kwargs =
        (case try_create (cf1\<lparr>log := log cf1 @ [ErrorCreating e, FallingBack]\<rparr>)
                ''mock'' ''mock-model'' None history_size Map.empty of
           (Inr client, cf3) \<Rightarrow> (Inr client, cf3)
         | (Inl e', cf3) \<Rightarrow> (Inl e', cf3\<lparr>log := log cf3 @ [ErrorCreating e']\<rparr>))"
    by (simp add: create_client_failure create_client_mock)
next
  let ?cc = "create_client cf provider_name model_name api_key history_size kwargs"
  have mock_count: "count_list (log (snd (create_client cf' (Some ''mock'') (Some mn') k' h' kw'))) FallingBack
        = count_list (log cf') FallingBack" for cf' mn' k' h' kw'
  proof -
    obtain r cf1 where t: "try_create cf' ''mock'' mn' k' h' kw' = (r, cf1)"
      by (cases "try_create cf' ''mock'' mn' k' h' kw'")
    show ?thesis
      using try_create_no_fallback_record [OF t]
      by (cases r) (simp_all add: create_client_mock t)
  qed
  show "count_list (log (snd ?cc)) FallingBack \<le> count_list (log cf) FallingBack + 1"
  proof (cases "or_default provider_name (default_provider cf)")
    case None
    then show ?thesis by (simp add: create_client_unresolved)
  next
    case (Some pn)
    note pn = this
    show ?thesis
    proof (cases "or_default model_name (default_model cf)")
      case None
      then show ?thesis using pn by (simp add: create_client_unresolved)
    next
      case (Some mn)
      obtain r cf1 where t: "try_create cf pn mn api_key history_size kwargs = (r, cf1)"
        by (cases "try_create cf pn mn api_key history_size kwargs")
      show ?thesis
      proof (cases r)
        case (Inr client)
        then show ?thesis
          using create_client_success [OF pn Some] t try_create_no_fallback_record [OF t] by simp
      next
        case (Inl e)
        then show ?thesis
          using create_client_failure [OF pn Some] t try_create_no_fallback_record [OF t]
          by (simp add: mock_count)
      qed
    qed
  qed
qed


theorem fallback_at_most_once_witness:
  "try_create bare_client_factory ''openai'' ''gpt-4'' None 50 no_kwargs =
     (Inl (NotRegistered ''openai'' []), bare_client_factory) \<and>
   fallback_to_mock bare_client_factory \<and> ''openai'' \<noteq> ''mock'' \<and>
   create_client bare_client_factory (Some ''openai'') (Some ''gpt-4'') None 50 no_kwargs =
     (Inl (NotRegistered ''mock'' []),
      bare_client_factory\<lparr>log := [ErrorCreating (NotRegistered ''openai'' []), FallingBack,
                                    ErrorCreating (NotRegistered ''mock'' [])]\<rparr>)"
proof -
  have f: "fallback_to_mock bare_client_factory"
    by (simp add: fallback_to_mock_def bare_client_factory_def sample_client_factory_def)
  have l: "log bare_client_factory = []"
    by (simp add: bare_client_factory_def sample_client_factory_def)
  have t: "try_create bare_client_factory ''openai'' ''gpt-4'' None 50 Map.empty =
     (Inl (NotRegistered ''openai'' []), bare_client_factory)"
    by (rule try_create_unregistered)
      (simp_all add: bare_client_factory_def sample_client_factory_def sample_provider_factory_def)
  from fallback_at_most_once [of "Some ''openai''" bare_client_factory "Some ''gpt-4''" None 50 Map.empty]
  have "or_default (Some ''openai'') (default_provider bare_client_factory) = Some ''openai'' \<and>
      or_default (Some ''gpt-4'') (default_model bare_client_factory) = Some ''gpt-4'' \<and>
      try_create bare_client_factory ''openai'' ''gpt-4'' None 50 Map.empty =
        (Inl (NotRegistered ''openai'' []), bare_client_factory) \<and>
      fallback_to_mock bare_client_factory \<and> ''openai'' \<noteq> ''mock'' \<longrightarrow>
      create_client bare_client_factory (Some ''openai'') (Some ''gpt-4'') None 50 Map.empty =
        (case try_create (bare_client_factory\<lparr>log := log bare_client_factory @
                  [ErrorCreating (NotRegistered ''openai'' []), FallingBack]\<rparr>)
                ''mock'' ''mock-model'' None 50 Map.empty of
           (Inr client, cf3) \<Rightarrow> (Inr client, cf3)
         | (Inl e', cf3) \<Rightarrow> (Inl e', cf3\<lparr>log := log cf3 @ [ErrorCreating e']\<rparr>))"
    by blast
  then show ?thesis using f t
    by (simp add: or_default_def l try_create_unregistered bare_client_factory_def
        sample_client_factory_def sample_provider_factory_def no_kwargs_def)
qed


end
